theory Spec2Isabelle
  imports Complex_Main
begin

section \<open>ambi\_cropac\_internal.h: the definitions\<close>

text \<open>
  The header of the first-order parametric binaural Ambisonic decoder fixes the geometry
  of every buffer through preprocessor constants. Each constant is one definition, with
  the right-hand side the macro has. \<open>FRAME_SIZE\<close> comes from \<open>ambi_cropac.h\<close>, which
  this header includes; it is a parameter wherever it is used.
\<close>

definition USE_NEAREST_HRIRS :: nat where
  "USE_NEAREST_HRIRS = 1"

definition HOP_SIZE :: nat where
  "HOP_SIZE = 128"

definition HYBRID_BANDS :: nat where
  "HYBRID_BANDS = HOP_SIZE + 5"

definition TIME_SLOTS :: "nat \<Rightarrow> nat" where
  "TIME_SLOTS FRAME_SIZE = FRAME_SIZE div HOP_SIZE"

definition NUM_EARS :: nat where
  "NUM_EARS = 2"

definition SH_ORDER :: nat where
  "SH_ORDER = 1"

definition NUM_SH_SIGNALS :: nat where
  "NUM_SH_SIGNALS = (SH_ORDER + 1) * (SH_ORDER + 1)"

definition POST_GAIN_DB :: real where
  "POST_GAIN_DB = - 9"

section \<open>The structs, as declared\<close>

text \<open>
  A C type as far as the header uses one: the scalar types, a type named by another
  header (\<open>complexVector\<close>, \<open>CH_ORDER\<close>, \<open>NORM_TYPES\<close>), a pointer, and a fixed-size
  array. The declarator \<open>T x[A][B][C]\<close> is an array of \<open>A\<close> arrays of \<open>B\<close> arrays of
  \<open>C\<close> elements of type \<open>T\<close>.
\<close>

datatype ctype =
    C_float
  | C_float_complex
  | C_int
  | C_char
  | C_void
  | Named string
  | Ptr ctype
  | Array nat ctype

text \<open>A struct is the list of its members, in declaration order.\<close>

type_synonym cstruct = "(string \<times> ctype) list"

definition codecPars :: cstruct where
  "codecPars =
    [ (''M_dec'', Array HYBRID_BANDS (Array NUM_EARS (Array NUM_SH_SIGNALS C_float_complex))),
      (''sofa_filepath'', Ptr C_char),
      (''hrirs'', Ptr C_float),
      (''hrir_dirs_deg'', Ptr C_float),
      (''N_hrir_dirs'', C_int),
      (''hrir_len'', C_int),
      (''hrir_fs'', C_int),
      (''N_Tri'', C_int),
      (''itds_s'', Ptr C_float),
      (''hrtf_fb'', Ptr C_float_complex) ]"

definition ambi_cropac_data :: "nat \<Rightarrow> cstruct" where
  "ambi_cropac_data FRAME_SIZE =
    [ (''SHFrameTD'', Array NUM_SH_SIGNALS (Array FRAME_SIZE C_float)),
      (''SHframeTF'',
         Array HYBRID_BANDS (Array NUM_SH_SIGNALS (Array (TIME_SLOTS FRAME_SIZE) C_float_complex))),
      (''SHframeTF_rot'',
         Array HYBRID_BANDS (Array NUM_SH_SIGNALS (Array (TIME_SLOTS FRAME_SIZE) C_float_complex))),
      (''binframeTF'',
         Array HYBRID_BANDS (Array NUM_EARS (Array (TIME_SLOTS FRAME_SIZE) C_float_complex))),
      (''STFTInputFrameTF'', Ptr (Ptr (Named ''complexVector''))),
      (''STFTOutputFrameTF'', Ptr (Ptr (Named ''complexVector''))),
      (''hSTFT'', Ptr C_void),
      (''afSTFTdelay'', C_int),
      (''tempHopFrameTD'', Ptr (Ptr C_float)),
      (''fs'', C_int),
      (''freqVector'', Array HYBRID_BANDS C_float),
      (''pars'', Ptr (Named ''codecPars'')),
      (''reInitCodec'', C_int),
      (''EQ'', Array HYBRID_BANDS C_float),
      (''balance'', Array HYBRID_BANDS C_float),
      (''decBalance'', Array HYBRID_BANDS C_float),
      (''rE_WEIGHT'', C_int),
      (''useDefaultHRIRsFLAG'', C_int),
      (''chOrdering'', Named ''CH_ORDER''),
      (''norm'', Named ''NORM_TYPES''),
      (''covAvgCoeff'', C_float),
      (''enableRotation'', C_int),
      (''yaw'', C_float),
      (''roll'', C_float),
      (''pitch'', C_float),
      (''bFlipYaw'', C_int),
      (''bFlipPitch'', C_int),
      (''bFlipRoll'', C_int),
      (''useRollPitchYawFlag'', C_int) ]"

text \<open>The member of a struct by name; \<open>None\<close> when the struct has no such member.\<close>

definition member_type :: "cstruct \<Rightarrow> string \<Rightarrow> ctype option" where
  "member_type s n = map_of s n"

text \<open>The extents of an array type, outermost first; a non-array type has none.\<close>

fun array_dims :: "ctype \<Rightarrow> nat list" where
  "array_dims (Array n t) = n # array_dims t"
| "array_dims t = []"

definition member_dims :: "cstruct \<Rightarrow> string \<Rightarrow> nat list option" where
  "member_dims s n = map_option array_dims (member_type s n)"

text \<open>
  The band extent of a member: the outermost extent of its array type, \<open>None\<close> for a
  member that is missing or is no array.
\<close>

definition band_extent :: "cstruct \<Rightarrow> string \<Rightarrow> nat option" where
  "band_extent s n =
     (case member_dims s n of
        Some (b # ds) \<Rightarrow> Some b
      | _ \<Rightarrow> None)"

text \<open>The members of a struct whose outermost extent is \<open>b\<close>.\<close>

definition members_with_extent :: "cstruct \<Rightarrow> nat \<Rightarrow> string list" where
  "members_with_extent s b = map fst (filter (\<lambda>(n, t). take 1 (array_dims t) = [b]) s)"

section \<open>Array objects\<close>

text \<open>
  An object of an array type is a nest of element lists. \<open>has_dims\<close> says that an
  object has exactly the extents of its declared type. C changes an array object only
  by assigning to one of its elements: \<open>store\<close> is the assignment \<open>x[i][j]... = v\<close>,
  \<open>None\<close> when an index is out of range or the index list does not reach an element.
\<close>

datatype 'a carray = Elem 'a | Arr "'a carray list"

fun has_dims :: "nat list \<Rightarrow> 'a carray \<Rightarrow> bool" where
  "has_dims [] (Elem x) = True"
| "has_dims (n # ns) (Arr xs) = (length xs = n \<and> list_all (has_dims ns) xs)"
| "has_dims ns a = False"

fun store :: "nat list \<Rightarrow> 'a \<Rightarrow> 'a carray \<Rightarrow> 'a carray option" where
  "store [] v (Elem x) = Some (Elem v)"
| "store (i # idx) v (Arr xs) =
     (if i < length xs
      then (case store idx v (xs ! i) of
              None \<Rightarrow> None
            | Some x' \<Rightarrow> Some (Arr (xs[i := x'])))
      else None)"
| "store idx v a = None"

text \<open>The array object of the given extents with every element \<open>x\<close>.\<close>

fun filled :: "nat list \<Rightarrow> 'a \<Rightarrow> 'a carray" where
  "filled [] x = Elem x"
| "filled (n # ns) x = Arr (replicate n (filled ns x))"

section \<open>Publishing a rebuilt decode matrix\<close>

text \<open>
  Modelled from the spec: the generation counter of the rebuild requests and the publish
  of a rebuild's result. The header declares neither: the request path and the body of
  \<open>ambi_cropac_initCodec\<close> are in \<open>ambi_cropac.c\<close>, and neither \<open>codecPars\<close> nor
  \<open>ambi_cropac_data\<close> has a member for a generation. The spec has a generation counter
  that is incremented on each new request; a rebuild carries the generation of its
  request, and its result is published only when that generation is the one of the latest
  request, a stale result being discarded. \<open>published\<close> is the matrix the audio path
  reads, \<open>None\<close> before the first publish. The spec gives the counter no width; it is a
  natural number here.
\<close>

record 'm publisher =
  generation :: nat
  published :: "'m option"

text \<open>
  \<open>Request\<close> is a new rebuild request; \<open>Finish g m\<close> is the end of the rebuild that was
  requested with generation \<open>g\<close>, with the matrix \<open>m\<close> as its result.
\<close>

datatype 'm rebuild_event = Request | Finish nat 'm

fun rebuild_step :: "'m rebuild_event \<Rightarrow> 'm publisher \<Rightarrow> 'm publisher" where
  "rebuild_step Request p = p\<lparr>generation := generation p + 1\<rparr>"
| "rebuild_step (Finish g m) p =
     (if g = generation p then p\<lparr>published := Some m\<rparr> else p)"

fun rebuild_run :: "'m rebuild_event list \<Rightarrow> 'm publisher \<Rightarrow> 'm publisher" where
  "rebuild_run [] p = p"
| "rebuild_run (e # es) p = rebuild_run es (rebuild_step e p)"

section \<open>Array objects keep their extents\<close>

lemma has_dims_filled: "has_dims ns (filled ns x)"
  by (induction ns) (simp_all add: list_all_iff)

lemma store_has_dims:
  "has_dims ns a \<Longrightarrow> store idx v a = Some a' \<Longrightarrow> has_dims ns a'"
proof (induction idx v a arbitrary: ns a' rule: store.induct)
  case (1 v x)
  then show ?case by (cases ns) auto
next
  case (2 i idx v xs)
  from "2.prems"(1) obtain n ms where ns: "ns = n # ms" and len: "length xs = n"
    and all: "list_all (has_dims ms) xs"
    by (cases ns) auto
  from "2.prems"(2) obtain x' where i: "i < length xs"
    and st: "store idx v (xs ! i) = Some x'" and a': "a' = Arr (xs[i := x'])"
    by (auto split: if_splits option.splits)
  from all i have "has_dims ms (xs ! i)"
    by (simp add: list_all_length)
  with "2.IH"[OF i _ st] have "has_dims ms x'"
    by simp
  with all have "list_all (has_dims ms) (xs[i := x'])"
    by (auto simp: list_all_iff dest: subsetD[OF set_update_subset_insert])
  with ns len a' show ?case
    by simp
qed simp_all

text \<open>An assignment whose indices are all in range is defined.\<close>

lemma store_in_range:
  "has_dims ns a \<Longrightarrow> list_all2 (<) idx ns \<Longrightarrow> \<exists>a'. store idx v a = Some a'"
proof (induction idx v a arbitrary: ns rule: store.induct)
  case (1 v x)
  then show ?case by simp
next
  case (2 i idx v xs)
  from "2.prems" obtain n ms where ns: "ns = n # ms" and len: "length xs = n"
    and all: "list_all (has_dims ms) xs" and i: "i < n" and rest: "list_all2 (<) idx ms"
    by (cases ns) auto
  from all i len have "has_dims ms (xs ! i)"
    by (simp add: list_all_length)
  with "2.IH"[of ms] i len rest obtain x' where "store idx v (xs ! i) = Some x'"
    by auto
  with i len show ?case
    by simp
qed (auto elim: has_dims.elims)

lemma extents_values:
  "HYBRID_BANDS = 133" "NUM_EARS = 2" "NUM_SH_SIGNALS = 4" "SH_ORDER = 1" "HOP_SIZE = 128"
  by (simp_all add: HYBRID_BANDS_def HOP_SIZE_def NUM_EARS_def NUM_SH_SIGNALS_def SH_ORDER_def)

section \<open>The decode matrix\<close>

text \<open>
  Claim C5. The decode matrix \<open>M_dec\<close> of \<open>codecPars\<close> is declared with the extents
  bands x ears x spherical-harmonic channels, which are 133 x 2 x 4; the channel count 4
  is \<open>(SH_ORDER + 1)\<^sup>2\<close> for the fixed order 1. The extents belong to the declared type, and
  an assignment to an element, the only change C allows on an array object, leaves an
  object of these extents with the same extents: they never change while the module lives.
\<close>

theorem M_dec_extents_fixed:
  "member_dims codecPars ''M_dec'' = Some [HYBRID_BANDS, NUM_EARS, NUM_SH_SIGNALS]
   \<and> [HYBRID_BANDS, NUM_EARS, NUM_SH_SIGNALS] = [133, 2, 4]
   \<and> NUM_SH_SIGNALS = (SH_ORDER + 1)\<^sup>2 \<and> SH_ORDER = 1
   \<and> (has_dims [HYBRID_BANDS, NUM_EARS, NUM_SH_SIGNALS] m \<longrightarrow> store idx v m = Some m'
        \<longrightarrow> has_dims [HYBRID_BANDS, NUM_EARS, NUM_SH_SIGNALS] m')"
proof -
  have "member_dims codecPars ''M_dec'' = Some [HYBRID_BANDS, NUM_EARS, NUM_SH_SIGNALS]"
    by (simp add: member_dims_def member_type_def codecPars_def)
  moreover have "[HYBRID_BANDS, NUM_EARS, NUM_SH_SIGNALS] = [133, 2, 4]"
    by (simp add: extents_values)
  moreover have "NUM_SH_SIGNALS = (SH_ORDER + 1)\<^sup>2" "SH_ORDER = 1"
    by (simp_all add: NUM_SH_SIGNALS_def SH_ORDER_def power2_eq_square)
  ultimately show ?thesis
    using store_has_dims[of "[HYBRID_BANDS, NUM_EARS, NUM_SH_SIGNALS]" m idx v m'] by blast
qed

text \<open>
  The matrix of zeros has the declared extents; writing 1 to its last element
  \<open>M_dec[132][1][3]\<close> is defined and gives a matrix of the same extents.
\<close>

theorem M_dec_extents_fixed_witness:
  "has_dims [HYBRID_BANDS, NUM_EARS, NUM_SH_SIGNALS]
     (filled [HYBRID_BANDS, NUM_EARS, NUM_SH_SIGNALS] (0 :: complex))
   \<and> (\<exists>m'. store [132, 1, 3] 1 (filled [HYBRID_BANDS, NUM_EARS, NUM_SH_SIGNALS] (0 :: complex))
              = Some m'
          \<and> has_dims [HYBRID_BANDS, NUM_EARS, NUM_SH_SIGNALS] m')"
proof -
  let ?D = "[HYBRID_BANDS, NUM_EARS, NUM_SH_SIGNALS]"
  let ?m = "filled ?D (0 :: complex)"
  have d: "has_dims ?D ?m"
    by (rule has_dims_filled)
  have r: "list_all2 (<) [132, 1, 3] ?D"
    by (simp add: extents_values)
  from store_in_range[OF d r, of 1] obtain m' where st: "store [132, 1, 3] 1 ?m = Some m'" ..
  from M_dec_extents_fixed[of ?m "[132, 1, 3]" 1 m'] d st have d': "has_dims ?D m'"
    by (elim conjE) (rule mp[OF mp], assumption+)
  show ?thesis
    by (intro conjI exI[of _ m']) (rule d, rule st, rule d')
qed

section \<open>The band extent\<close>

text \<open>
  Claim C9. The hybrid band count is the hop size plus 5, which is 133 for the hop size
  128. The decode matrix, the three complex sub-band buffers, the frequency vector and
  the per-band EQ, balance and decode-balance parameters all have this count as their
  outermost extent, whatever the frame size; they are exactly the members of the two
  structs with that extent.
\<close>

theorem band_extent_shared:
  "HYBRID_BANDS = HOP_SIZE + 5 \<and> HOP_SIZE = 128 \<and> HYBRID_BANDS = 133
   \<and> band_extent codecPars ''M_dec'' = Some HYBRID_BANDS
   \<and> map (band_extent (ambi_cropac_data FRAME_SIZE))
        [''SHframeTF'', ''SHframeTF_rot'', ''binframeTF'', ''freqVector'',
         ''EQ'', ''balance'', ''decBalance'']
      = replicate 7 (Some HYBRID_BANDS)
   \<and> members_with_extent codecPars HYBRID_BANDS = [''M_dec'']
   \<and> members_with_extent (ambi_cropac_data FRAME_SIZE) HYBRID_BANDS
      = [''SHframeTF'', ''SHframeTF_rot'', ''binframeTF'', ''freqVector'',
         ''EQ'', ''balance'', ''decBalance'']"
proof -
  have "band_extent codecPars ''M_dec'' = Some HYBRID_BANDS"
    by (simp add: band_extent_def member_dims_def member_type_def codecPars_def)
  moreover have "map (band_extent (ambi_cropac_data FRAME_SIZE))
        [''SHframeTF'', ''SHframeTF_rot'', ''binframeTF'', ''freqVector'',
         ''EQ'', ''balance'', ''decBalance'']
      = replicate 7 (Some HYBRID_BANDS)"
    by (simp add: band_extent_def member_dims_def member_type_def ambi_cropac_data_def
        numeral_eq_Suc)
  moreover have "members_with_extent codecPars HYBRID_BANDS = [''M_dec'']"
    by (simp add: members_with_extent_def codecPars_def)
  moreover have "members_with_extent (ambi_cropac_data FRAME_SIZE) HYBRID_BANDS
      = [''SHframeTF'', ''SHframeTF_rot'', ''binframeTF'', ''freqVector'',
         ''EQ'', ''balance'', ''decBalance'']"
    by (simp add: members_with_extent_def ambi_cropac_data_def extents_values)
  ultimately show ?thesis
    by (simp add: extents_values)
qed

section \<open>Stale rebuilds are never published\<close>

lemma rebuild_step_mono: "generation p \<le> generation (rebuild_step e p)"
  by (cases e) simp_all

lemma rebuild_run_mono: "generation p \<le> generation (rebuild_run es p)"
proof (induction es arbitrary: p)
  case Nil
  show ?case by simp
next
  case (Cons e es)
  have "generation p \<le> generation (rebuild_step e p)"
    by (rule rebuild_step_mono)
  also have "\<dots> \<le> generation (rebuild_run es (rebuild_step e p))"
    by (rule Cons.IH)
  finally show ?case by simp
qed

text \<open>A run with a request in it ends at a later generation than it started from.\<close>

lemma rebuild_run_request:
  "Request \<in> set es \<Longrightarrow> generation p < generation (rebuild_run es p)"
proof (induction es arbitrary: p)
  case Nil
  then show ?case by simp
next
  case (Cons e es)
  show ?case
  proof (cases "e = Request")
    case True
    then have "generation p < generation (rebuild_step e p)"
      by simp
    also have "\<dots> \<le> generation (rebuild_run es (rebuild_step e p))"
      by (rule rebuild_run_mono)
    finally show ?thesis by simp
  next
    case False
    with Cons.prems have "Request \<in> set es"
      by simp
    from Cons.IH[OF this, of "rebuild_step e p"] rebuild_step_mono[of p e]
    show ?thesis by simp
  qed
qed

text \<open>
  Claim C4. Every rebuild request is tagged with a generation counter that is incremented
  on each new request. The result of a rebuild is published only when its generation is
  that of the latest request. A rebuild that a newer request supersedes before it
  finishes (a \<open>Request\<close> among the events \<open>es\<close> that follow its own request) is discarded
  when it finishes: the published matrix stays as it was.
\<close>

theorem stale_rebuild_discarded:
  "generation (rebuild_step Request p) = generation p + 1
   \<and> published (rebuild_step (Finish g m) p)
       = (if g = generation p then Some m else published p)
   \<and> (Request \<in> set es \<longrightarrow>
        published (rebuild_step (Finish (generation (rebuild_step Request p)) m)
                     (rebuild_run es (rebuild_step Request p)))
        = published (rebuild_run es (rebuild_step Request p)))"
proof -
  have "published (rebuild_step (Finish (generation (rebuild_step Request p)) m)
                     (rebuild_run es (rebuild_step Request p)))
        = published (rebuild_run es (rebuild_step Request p))"
    if "Request \<in> set es"
    using rebuild_run_request[OF that, of "rebuild_step Request p"] by simp
  then show ?thesis
    by simp
qed

text \<open>
  Before any publish, a request of generation 1 is followed by a second request, of
  generation 2. When the first rebuild finishes, with the matrix of zeros, nothing is
  published; when the second finishes, with the matrix of ones, that matrix is published.
\<close>

theorem stale_rebuild_discarded_witness:
  "Request \<in> set [Request :: complex carray rebuild_event]
   \<and> published (rebuild_step (Finish 1 (filled [HYBRID_BANDS, NUM_EARS, NUM_SH_SIGNALS] 0))
                  (rebuild_run [Request] (rebuild_step Request
                     \<lparr>generation = 0, published = None\<rparr>)))
       = None
   \<and> published (rebuild_step (Finish 2 (filled [HYBRID_BANDS, NUM_EARS, NUM_SH_SIGNALS] 1))
                  (rebuild_run [Request] (rebuild_step Request
                     \<lparr>generation = 0, published = None :: complex carray option\<rparr>)))
       = Some (filled [HYBRID_BANDS, NUM_EARS, NUM_SH_SIGNALS] 1)"
  using stale_rebuild_discarded[where p = "\<lparr>generation = 0, published = None\<rparr>"
      and es = "[Request :: complex carray rebuild_event]"
      and m = "filled [HYBRID_BANDS, NUM_EARS, NUM_SH_SIGNALS] (0 :: complex)" and g = 1]
  by simp

end
